theory Spec2Isabelle
  imports Main "HOL-Library.Sublist"
begin

section \<open>The wsl2 connection plugin: data model\<close>

text \<open>
  The plugin \<^verbatim>\<open>plugins/connection/wsl2.py\<close> runs commands through a local
  \<^verbatim>\<open>powershell.exe\<close> and copies files, optionally inside a Hyper-V virtual machine that
  is entered by a generated PowerShell script.

  Conventions of the embedding.
  \<^item> A Python \<^verbatim>\<open>str\<close> is represented by its UTF-8 encoding, so both \<^verbatim>\<open>str\<close> and
    \<^verbatim>\<open>bytes\<close> are values of type \<^typ>\<open>string\<close>, and the converters \<^verbatim>\<open>to_bytes\<close>,
    \<^verbatim>\<open>to_text\<close> and \<^verbatim>\<open>to_native\<close> of the host framework are the identity.
  \<^item> Everything the plugin asks of the operating system is a field of the record
    \<open>host_os\<close>: the search path, the file system, pty allocation, process creation,
    what a child does, and file copying.
  \<^item> Every operation returns the list of system calls it made, in order, together with
    its outcome: a returned value, a raised exception, or a call that never returns
    because the child it waits for never exits.
  \<^item> Calls of \<^verbatim>\<open>display\<close> write to the log only and are left out, as are the
    base-class methods of the host framework reached through \<^verbatim>\<open>super()\<close>, which
    start no process and copy no file.
  \<^item> \<^verbatim>\<open>cmd\<close> is a \<^verbatim>\<open>str\<close> or a \<^verbatim>\<open>bytes\<close>, as the signature of
    \<^verbatim>\<open>exec_command\<close> says; the branch for other values is not modelled.
\<close>

datatype become_plugin = BecomeBase (expect_prompt: bool)

record connection =
  vm_name :: "string option"
  remote_user :: "string option"
  password :: "string option"
  remote_addr :: string
  pipelining :: bool
  operation_timeout :: int
  configuration_name :: string
  become :: "become_plugin option"
  cwd :: "string option"
  connected :: bool

datatype command = CmdStr string | CmdBytes string

datatype popen_cmd = Shell string | Argv "string list"

datatype stdin_arg = Inherited | PIPE | Fd nat

record popen_args =
  p_cmd :: popen_cmd
  p_shell :: bool
  p_executable :: "string option"
  p_cwd :: "string option"
  p_stdin :: stdin_arg

text \<open>
  What \<^verbatim>\<open>p.communicate\<close> observes of a child: it exits with a status, its output and
  its error output, or it never exits and the call never returns.
\<close>

datatype child = Exits int string string | Hangs

text \<open>
  The host, as the plugin sees it.
  \<^item> \<open>which n\<close>: the result of \<^verbatim>\<open>shutil.which(n)\<close>.
  \<^item> \<open>inode p\<close>: the file that the path \<open>p\<close> names, if it names one.
  \<^item> \<open>openpty\<close>: the result of \<^verbatim>\<open>pty.openpty()\<close>, the pair of master and slave
    descriptors, or the text of the \<^verbatim>\<open>OSError\<close> it raises.
  \<^item> \<open>popen_error a\<close>: the text of the \<^verbatim>\<open>OSError\<close> that \<^verbatim>\<open>subprocess.Popen\<close> raises
    for the arguments \<open>a\<close>, if it raises.
  \<^item> \<open>communicate a d\<close>: what the child started with \<open>a\<close> does when it is sent \<open>d\<close>.
  \<^item> \<open>copy_error src dst\<close>: the text of the \<^verbatim>\<open>OSError\<close> that copying an existing
    \<open>src\<close> to \<open>dst\<close> meets, if any.
\<close>

record host_os =
  which :: "string \<Rightarrow> string option"
  inode :: "string \<Rightarrow> nat option"
  openpty :: "string + nat \<times> nat"
  popen_error :: "popen_args \<Rightarrow> string option"
  communicate :: "popen_args \<Rightarrow> string option \<Rightarrow> child"
  copy_error :: "string \<Rightarrow> string \<Rightarrow> string option"

datatype event =
    OpenPty
  | Popen popen_args
  | Close nat
  | Communicate "string option"
  | CopyFile string string

datatype error =
    AnsibleError string
  | AnsibleFileNotFound string
  | OSError string
  | FormatError

datatype 'a outcome = Returned 'a | Raised error | Blocked

section \<open>Library functions the plugin calls\<close>

definition to_bytes :: "string \<Rightarrow> string" where
  "to_bytes s = s"

definition to_text :: "string \<Rightarrow> string" where
  "to_text s = s"

definition to_native :: "string \<Rightarrow> string" where
  "to_native s = s"

text \<open>\<^verbatim>\<open>str(x)\<close> for an optional string: \<^verbatim>\<open>None\<close> prints as the word None.\<close>

definition py_str :: "string option \<Rightarrow> string" where
  "py_str x = (case x of None \<Rightarrow> ''None'' | Some s \<Rightarrow> s)"

text \<open>Truth value of an optional string: \<^verbatim>\<open>None\<close> and the empty string are false.\<close>

definition truthy :: "string option \<Rightarrow> bool" where
  "truthy x = (case x of None \<Rightarrow> False | Some s \<Rightarrow> s \<noteq> [])"

text \<open>\<^verbatim>\<open>a or b\<close> on an optional string and a default.\<close>

definition py_or :: "string option \<Rightarrow> string \<Rightarrow> string" where
  "py_or x d = (case x of None \<Rightarrow> d | Some s \<Rightarrow> if s = [] then d else s)"

text \<open>\<^verbatim>\<open>s.rstrip("\n")\<close> removes every trailing newline.\<close>

definition rstrip_nl :: "string \<Rightarrow> string" where
  "rstrip_nl s = rev (dropWhile (\<lambda>c. c = CHR 0x0A) (rev s))"

text \<open>\<^verbatim>\<open>os.path.exists\<close>: a path exists when it names a file.\<close>

definition path_exists :: "host_os \<Rightarrow> string \<Rightarrow> bool" where
  "path_exists os p = (inode os p \<noteq> None)"

text \<open>
  \<^verbatim>\<open>str.format\<close> with positional arguments already converted by \<^verbatim>\<open>str\<close>. The scanner
  reads the template left to right: \<^verbatim>\<open>{{\<close> and \<^verbatim>\<open>}}\<close> are literal braces,
  \<^verbatim>\<open>{n}\<close> with a decimal \<open>n\<close> is replaced by argument \<open>n\<close>, inserted as it is and never
  scanned again. The result is \<open>None\<close> where Python raises (a lone brace, an index
  past the last argument) and for the forms of field that are not modelled (automatic
  numbering, names, conversions, format specifications). The two templates of the plugin
  use numbered fields only.
\<close>

text \<open>The value of a decimal digit, by its character code (48 to 57).\<close>

definition digit_val :: "char \<Rightarrow> nat option" where
  "digit_val c =
     (let n = (of_char c :: nat)
      in if 48 \<le> n \<and> n \<le> 57 then Some (n - 48) else None)"

datatype scan = Plain | Opened | Field nat | Closing

fun format_scan :: "scan \<Rightarrow> string \<Rightarrow> string list \<Rightarrow> string option" where
  "format_scan Plain [] args = Some []"
| "format_scan Opened [] args = None"
| "format_scan (Field n) [] args = None"
| "format_scan Closing [] args = None"
| "format_scan Plain (c # cs) args =
     (if c = CHR ''{'' then format_scan Opened cs args
      else if c = CHR ''}'' then format_scan Closing cs args
      else map_option (Cons c) (format_scan Plain cs args))"
| "format_scan Opened (c # cs) args =
     (if c = CHR ''{'' then map_option (Cons c) (format_scan Plain cs args)
      else case digit_val c of
             Some d \<Rightarrow> format_scan (Field d) cs args
           | None \<Rightarrow> None)"
| "format_scan (Field n) (c # cs) args =
     (if c = CHR ''}'' then
        (if n < length args
         then map_option (append (args ! n)) (format_scan Plain cs args)
         else None)
      else case digit_val c of
             Some d \<Rightarrow> format_scan (Field (10 * n + d)) cs args
           | None \<Rightarrow> None)"
| "format_scan Closing (c # cs) args =
     (if c = CHR ''}'' then map_option (Cons c) (format_scan Plain cs args)
      else None)"

definition format :: "string \<Rightarrow> string list \<Rightarrow> string option" where
  "format template args = format_scan Plain template args"

text \<open>
  \<^verbatim>\<open>shutil.copyfile(src, dst)\<close>: it raises \<^verbatim>\<open>SameFileError\<close> when both paths exist and
  name the same file, \<^verbatim>\<open>FileNotFoundError\<close> when the source names no file, and
  otherwise whatever error the copy itself meets. The text of \<^verbatim>\<open>FileNotFoundError\<close>
  names the file; Python prints the name as \<^verbatim>\<open>repr\<close> does, the model as it is.
\<close>

datatype copy_result = Copied | SameFileError | IOError string

definition no_such_file :: "string \<Rightarrow> string" where
  "no_such_file p = ''[Errno 2] No such file or directory: '' @ p"

definition copyfile :: "host_os \<Rightarrow> string \<Rightarrow> string \<Rightarrow> copy_result" where
  "copyfile os src dst =
     (if inode os src \<noteq> None \<and> inode os src = inode os dst then SameFileError
      else if inode os src = None then IOError (no_such_file src)
      else case copy_error os src dst of
             Some e \<Rightarrow> IOError e
           | None \<Rightarrow> Copied)"

section \<open>The script templates\<close>

definition ENTER_VM :: string where
  "ENTER_VM = ''\<newline># $WarningPreference = 'SilentlyContinue'\<newline>$secpass = ConvertTo-SecureString -AsPlainText -Force -String '{2}'\<newline>$cred = [PSCredential]::new('{1}', $secpass)\<newline>$exec_wrapper_str = $input | Out-String\<newline>$cmd = [ScriptBlock]::Create(@'\<newline>{3}\<newline>'@)\<newline>$s = New-PSSession -VMName '{0}' -Credential $cred\<newline>Invoke-Command -Session $s -InputObject $exec_wrapper_str -ScriptBlock $cmd\<newline>$s | Remove-PSSession\<newline>''"

definition COPY_FILE :: string where
  "COPY_FILE = ''\<newline>$secpass = ConvertTo-SecureString -AsPlainText -Force -String '{2}'\<newline>$cred = [PSCredential]::new('{1}', $secpass)\<newline>$s = New-PSSession -VMName '{0}' -Credential $cred\<newline>Copy-Item -ToSession $s -Path '{3}' -Destination '{4}'\<newline>$s | Remove-PSSession\<newline>''"

section \<open>The connection's operations\<close>

definition connect :: "connection \<Rightarrow> connection" where
  "connect self = (if \<not> connected self then self\<lparr>connected := True\<rparr> else self)"

definition close :: "connection \<Rightarrow> connection" where
  "close self = self\<lparr>connected := False\<rparr>"

definition cmd_bytes :: "command \<Rightarrow> string" where
  "cmd_bytes c = (case c of CmdStr s \<Rightarrow> to_bytes s | CmdBytes b \<Rightarrow> to_bytes b)"

definition wants_pty :: "connection \<Rightarrow> bool \<Rightarrow> bool" where
  "wants_pty self sudoable =
     (sudoable \<and>
      (case become self of None \<Rightarrow> False | Some b \<Rightarrow> expect_prompt b) \<and>
      \<not> pipelining self)"

text \<open>
  The pty of a call, when one was opened, is the pair \<open>(master, slave)\<close>; the child
  reads from the slave, and from a pipe when there is no pty.
\<close>

definition stdin_of :: "(nat \<times> nat) option \<Rightarrow> stdin_arg" where
  "stdin_of pty = (case pty of None \<Rightarrow> PIPE | Some ms \<Rightarrow> Fd (snd ms))"

text \<open>\<^verbatim>\<open>if master is not None: os.close(stdin)\<close>\<close>

definition close_slave :: "(nat \<times> nat) option \<Rightarrow> event list" where
  "close_slave pty = (case pty of None \<Rightarrow> [] | Some ms \<Rightarrow> [Close (snd ms)])"

text \<open>\<^verbatim>\<open>if master: os.close(master)\<close>; descriptor 0 is not true.\<close>

definition close_master :: "(nat \<times> nat) option \<Rightarrow> event list" where
  "close_master pty =
     (case pty of None \<Rightarrow> [] | Some ms \<Rightarrow> if fst ms \<noteq> 0 then [Close (fst ms)] else [])"

text \<open>
  The tail of \<^verbatim>\<open>exec_command\<close>, from \<^verbatim>\<open>subprocess.Popen\<close> on; \<open>tr\<close> is the trace so
  far and \<open>c\<close> the command handed to the shell.
\<close>

definition spawn_and_wait ::
  "connection \<Rightarrow> host_os \<Rightarrow> event list \<Rightarrow> (nat \<times> nat) option \<Rightarrow> string \<Rightarrow>
   string \<Rightarrow> string option \<Rightarrow> event list \<times> (int \<times> string \<times> string) outcome" where
  "spawn_and_wait self os tr pty executable c in_data =
     (let a = \<lparr>p_cmd = Shell c, p_shell = True, p_executable = Some executable,
                p_cwd = cwd self, p_stdin = stdin_of pty\<rparr>
      in (case popen_error os a of
            Some e \<Rightarrow> (tr @ [Popen a], Raised (OSError e))
          | None \<Rightarrow>
              (case communicate os a in_data of
                 Hangs \<Rightarrow>
                   (tr @ [Popen a] @ close_slave pty @ [Communicate in_data], Blocked)
               | Exits rc out err \<Rightarrow>
                   (tr @ [Popen a] @ close_slave pty @ [Communicate in_data] @
                      close_master pty,
                    Returned (rc, out, err)))))"

definition exec_command ::
  "connection \<Rightarrow> host_os \<Rightarrow> command \<Rightarrow> string option \<Rightarrow> bool \<Rightarrow>
   event list \<times> (int \<times> string \<times> string) outcome" where
  "exec_command self os cmd in_data sudoable =
     (let executable = py_or (which os ''powershell.exe'') ''powershell.exe''
      in if \<not> path_exists os (to_bytes executable) then
           ([], Raised (AnsibleError
              (''failed to find the executable specified '' @ executable @
               ''. Please verify if the executable exists and re-try.'')))
         else
           (let c = cmd_bytes cmd;
                tr = (if wants_pty self sudoable then [OpenPty] else []);
                pty = (if wants_pty self sudoable then
                         (case openpty os of Inr ms \<Rightarrow> Some ms | Inl e \<Rightarrow> None)
                       else None)
            in if truthy (vm_name self) then
                 (case format ENTER_VM
                         [py_str (vm_name self), py_str (remote_user self),
                          py_str (password self), to_text c] of
                    None \<Rightarrow> (tr, Raised FormatError)
                  | Some connect_script \<Rightarrow>
                      spawn_and_wait self os tr pty executable
                        (to_bytes connect_script) in_data)
               else spawn_and_wait self os tr pty executable c in_data))"

text \<open>
  \<^verbatim>\<open>put_file\<close> after the path translation, on a connection with a virtual machine:
  \<open>tr\<close> is the trace so far, \<open>in_path\<close> the output of the translation.
\<close>

definition put_file_vm ::
  "connection \<Rightarrow> host_os \<Rightarrow> event list \<Rightarrow> string \<Rightarrow> string \<Rightarrow>
   event list \<times> unit outcome" where
  "put_file_vm self os tr in_path out_path =
     (case format COPY_FILE
             [py_str (vm_name self), py_str (remote_user self), py_str (password self),
              rstrip_nl (to_text in_path), to_text out_path] of
        None \<Rightarrow> (tr, Raised FormatError)
      | Some copy_script \<Rightarrow>
          (let executable = py_or (which os ''powershell.exe'') ''powershell.exe'';
               a = \<lparr>p_cmd = Shell (to_bytes copy_script), p_shell = True,
                     p_executable = Some executable, p_cwd = cwd self,
                     p_stdin = Inherited\<rparr>
           in (case popen_error os a of
                 Some e \<Rightarrow> (tr @ [Popen a], Raised (OSError e))
               | None \<Rightarrow>
                   (case communicate os a None of
                      Hangs \<Rightarrow> (tr @ [Popen a, Communicate None], Blocked)
                    | Exits rc out err \<Rightarrow>
                        (tr @ [Popen a, Communicate None], Returned ())))))"

text \<open>The same point of \<^verbatim>\<open>put_file\<close> on a connection without a virtual machine.\<close>

definition put_file_local ::
  "host_os \<Rightarrow> event list \<Rightarrow> string \<Rightarrow> string \<Rightarrow> event list \<times> unit outcome" where
  "put_file_local os tr in_path out_path =
     (case copyfile os (to_bytes in_path) (to_bytes out_path) of
        Copied \<Rightarrow> (tr @ [CopyFile in_path out_path], Returned ())
      | SameFileError \<Rightarrow>
          (tr @ [CopyFile in_path out_path],
           Raised (AnsibleError
             (''failed to copy: '' @ to_native in_path @ '' and '' @
              to_native out_path @ '' are the same'')))
      | IOError e \<Rightarrow>
          (tr @ [CopyFile in_path out_path],
           Raised (AnsibleError
             (''failed to transfer file to '' @ to_native out_path @ '': '' @
              to_native e))))"

definition wslpath_args :: "string \<Rightarrow> popen_args" where
  "wslpath_args in_path =
     \<lparr>p_cmd = Argv [''wslpath'', ''-w'', in_path], p_shell = False,
      p_executable = None, p_cwd = None, p_stdin = Inherited\<rparr>"

definition put_file ::
  "connection \<Rightarrow> host_os \<Rightarrow> string \<Rightarrow> string \<Rightarrow> event list \<times> unit outcome" where
  "put_file self os in_path out_path =
     (if \<not> path_exists os (to_bytes in_path) then
        ([], Raised (AnsibleFileNotFound
           (''file or module does not exist: '' @ to_native in_path)))
      else
        (let a = wslpath_args in_path
         in (case popen_error os a of
               Some e \<Rightarrow> ([Popen a], Raised (OSError e))
             | None \<Rightarrow>
                 (case communicate os a None of
                    Hangs \<Rightarrow> ([Popen a, Communicate None], Blocked)
                  | Exits rc stdout err \<Rightarrow>
                      (if truthy (vm_name self)
                       then put_file_vm self os [Popen a, Communicate None] stdout out_path
                       else put_file_local os [Popen a, Communicate None] stdout
                              out_path)))))"

definition fetch_file ::
  "connection \<Rightarrow> host_os \<Rightarrow> string \<Rightarrow> string \<Rightarrow> event list \<times> unit outcome" where
  "fetch_file self os in_path out_path = put_file self os in_path out_path"

text \<open>The processes an operation started, in order.\<close>

fun spawned :: "event list \<Rightarrow> popen_args list" where
  "spawned [] = []"
| "spawned (Popen a # es) = a # spawned es"
| "spawned (e # es) = spawned es"

text \<open>The scripts handed to the shell, in order.\<close>

fun scripts :: "event list \<Rightarrow> string list" where
  "scripts [] = []"
| "scripts (Popen a # es) =
     (case p_cmd a of Shell s \<Rightarrow> s # scripts es | Argv xs \<Rightarrow> scripts es)"
| "scripts (e # es) = scripts es"

text \<open>The descriptors an operation closed, in order.\<close>

fun closed :: "event list \<Rightarrow> nat list" where
  "closed [] = []"
| "closed (Close fd # es) = fd # closed es"
| "closed (e # es) = closed es"

text \<open>The local copies an operation made, as pairs of source and destination.\<close>

fun copies :: "event list \<Rightarrow> (string \<times> string) list" where
  "copies [] = []"
| "copies (CopyFile src dst # es) = (src, dst) # copies es"
| "copies (e # es) = copies es"

text \<open>
  \<open>in_order xs ys\<close>: the strings \<open>xs\<close> occur in \<open>ys\<close> one after the other, without
  overlap, in the order of the list.
\<close>

fun in_order :: "'a list list \<Rightarrow> 'a list \<Rightarrow> bool" where
  "in_order [] ys = True"
| "in_order (x # xs) [] = (x = [] \<and> in_order xs [])"
| "in_order (x # xs) (y # ys) =
     (if prefix x (y # ys)
      then (if in_order xs (drop (length x) (y # ys)) then True
            else in_order (x # xs) ys)
      else in_order (x # xs) ys)"

section \<open>Example hosts and connections\<close>

definition powershell_path :: string where
  "powershell_path = ''/mnt/c/Windows/System32/WindowsPowerShell/v1.0/powershell.exe''"

text \<open>What \<^verbatim>\<open>wslpath -w /tmp/a\<close> prints: a UNC path and a newline.\<close>

definition unc_tmp_a :: string where
  "unc_tmp_a = [CHR 0x5C, CHR 0x5C] @ ''wsl.localhost'' @ [CHR 0x5C] @ ''Ubuntu'' @
               [CHR 0x5C] @ ''tmp'' @ [CHR 0x5C] @ ''a''"

text \<open>
  A WSL host: PowerShell is on the search path, \<^verbatim>\<open>/tmp/a\<close> is a file, a pty is
  available as descriptors 3 and 4, every process starts and exits with status 0.
\<close>

definition os_wsl :: host_os where
  "os_wsl =
     \<lparr>which = (\<lambda>n. if n = ''powershell.exe'' then Some powershell_path else None),
      inode = (\<lambda>p. if p = powershell_path then Some 1
                    else if p = ''/tmp/a'' then Some 2 else None),
      openpty = Inr (3, 4),
      popen_error = (\<lambda>a. None),
      communicate = (\<lambda>a d. case p_cmd a of
                               Argv xs \<Rightarrow> Exits 0 (unc_tmp_a @ ''\<newline>'') []
                             | Shell s \<Rightarrow> Exits 0 ''hi\<newline>'' []),
      copy_error = (\<lambda>src dst. None)\<rparr>"

text \<open>The same host when no pty can be allocated.\<close>

definition os_no_pty :: host_os where
  "os_no_pty = os_wsl\<lparr>openpty := Inl ''out of pty devices''\<rparr>"

text \<open>The same host when the shell cannot be started.\<close>

definition os_no_spawn :: host_os where
  "os_no_spawn =
     os_wsl\<lparr>popen_error :=
              (\<lambda>a. case p_cmd a of Shell s \<Rightarrow> Some ''Exec format error''
                               | Argv xs \<Rightarrow> None)\<rparr>"

text \<open>The same host when the child never exits.\<close>

definition os_hangs :: host_os where
  "os_hangs = os_wsl\<lparr>communicate := (\<lambda>a d. Hangs)\<rparr>"

text \<open>A connection to the WSL host itself, with a prompting become plugin.\<close>

definition conn_local :: connection where
  "conn_local =
     \<lparr>vm_name = None, remote_user = Some ''bob'', password = None,
      remote_addr = ''localhost'', pipelining = False, operation_timeout = 20,
      configuration_name = ''Microsoft.PowerShell'',
      become = Some (BecomeBase True), cwd = None, connected = True\<rparr>"

text \<open>A connection to the virtual machine myvm.\<close>

definition conn_myvm :: connection where
  "conn_myvm = conn_local\<lparr>vm_name := Some ''myvm'', password := Some ''pw''\<rparr>"

section \<open>Closed forms used in the proofs\<close>

text \<open>
  What \<^verbatim>\<open>ENTER_VM.format(v, u, p, c)\<close> and \<^verbatim>\<open>COPY_FILE.format(v, u, p, src, dst)\<close>
  evaluate to; the lemmas \<open>enter_vm_format\<close> and \<open>copy_file_format\<close> below prove it from
  the templates. The quote character next to an argument is written \<open>CHR 0x27\<close>.
\<close>

definition enter_vm_script :: "string \<Rightarrow> string \<Rightarrow> string \<Rightarrow> string \<Rightarrow> string" where
  "enter_vm_script v u p c =
     ''\<newline># $WarningPreference = 'SilentlyContinue'\<newline>$secpass = ConvertTo-SecureString -AsPlainText -Force -String '' @ [CHR 0x27] @ p @
     [CHR 0x27] @ ''\<newline>$cred = [PSCredential]::new('' @ [CHR 0x27] @ u @
     [CHR 0x27] @ '', $secpass)\<newline>$exec_wrapper_str = $input | Out-String\<newline>$cmd = [ScriptBlock]::Create(@'\<newline>'' @ c @
     ''\<newline>'@)\<newline>$s = New-PSSession -VMName '' @ [CHR 0x27] @ v @
     [CHR 0x27] @ '' -Credential $cred\<newline>Invoke-Command -Session $s -InputObject $exec_wrapper_str -ScriptBlock $cmd\<newline>$s | Remove-PSSession\<newline>''"

definition copy_file_script ::
  "string \<Rightarrow> string \<Rightarrow> string \<Rightarrow> string \<Rightarrow> string \<Rightarrow> string" where
  "copy_file_script v u p src dst =
     ''\<newline>$secpass = ConvertTo-SecureString -AsPlainText -Force -String '' @ [CHR 0x27] @ p @
     [CHR 0x27] @ ''\<newline>$cred = [PSCredential]::new('' @ [CHR 0x27] @ u @
     [CHR 0x27] @ '', $secpass)\<newline>$s = New-PSSession -VMName '' @ [CHR 0x27] @ v @
     [CHR 0x27] @ '' -Credential $cred\<newline>Copy-Item -ToSession $s -Path '' @ [CHR 0x27] @ src @
     [CHR 0x27] @ '' -Destination '' @ [CHR 0x27] @ dst @
     [CHR 0x27] @ ''\<newline>$s | Remove-PSSession\<newline>''"

text \<open>The arguments of the one \<^verbatim>\<open>Popen\<close> call of \<^verbatim>\<open>exec_command\<close>.\<close>

definition popen_shell :: "connection \<Rightarrow> host_os \<Rightarrow> string \<Rightarrow> stdin_arg \<Rightarrow> popen_args" where
  "popen_shell self os c stdin =
     \<lparr>p_cmd = Shell c, p_shell = True,
      p_executable = Some (py_or (which os ''powershell.exe'') ''powershell.exe''),
      p_cwd = cwd self, p_stdin = stdin\<rparr>"

text \<open>The command \<^verbatim>\<open>exec_command\<close> hands to the shell.\<close>

definition exec_script :: "connection \<Rightarrow> command \<Rightarrow> string" where
  "exec_script self cmd =
     (if truthy (vm_name self)
      then enter_vm_script (py_str (vm_name self)) (py_str (remote_user self))
             (py_str (password self)) (cmd_bytes cmd)
      else cmd_bytes cmd)"

section \<open>Auxiliary lemmas\<close>

lemmas op_defs =
  exec_command_def spawn_and_wait_def put_file_def put_file_vm_def put_file_local_def
  wslpath_args_def copyfile_def stdin_of_def close_slave_def close_master_def
  wants_pty_def cmd_bytes_def path_exists_def py_or_def py_str_def truthy_def
  to_bytes_def to_text_def to_native_def no_such_file_def Let_def

lemmas example_defs =
  os_wsl_def os_no_pty_def os_no_spawn_def os_hangs_def conn_local_def conn_myvm_def
  powershell_path_def unc_tmp_a_def

subsection \<open>Formatting the templates\<close>

lemma enter_vm_format:
  "format ENTER_VM [v, u, p, c] = Some (enter_vm_script v u p c)"
  by (simp add: format_def ENTER_VM_def digit_val_def enter_vm_script_def)

lemma copy_file_format:
  "format COPY_FILE [v, u, p, src, dst] = Some (copy_file_script v u p src dst)"
  by (simp add: format_def COPY_FILE_def digit_val_def copy_file_script_def)

lemma sublist_skip: "sublist x ys \<Longrightarrow> sublist x (a @ ys)"
  unfolding sublist_def by (metis append_assoc)

lemma enter_vm_script_contains:
  "sublist v (enter_vm_script v u p c)"
  "sublist u (enter_vm_script v u p c)"
  "sublist p (enter_vm_script v u p c)"
  "sublist c (enter_vm_script v u p c)"
  unfolding enter_vm_script_def
  by (intro sublist_append_rightI sublist_skip)+

subsection \<open>Strings occurring in order\<close>

lemma in_order_Cons:
  "in_order (x # xs) ys \<longleftrightarrow> (\<exists>p s. ys = p @ x @ s \<and> in_order xs s)"
proof (induction ys)
  case Nil
  then show ?case by auto
next
  case (Cons y ys)
  show ?case
  proof
    assume "in_order (x # xs) (y # ys)"
    then consider (here) "prefix x (y # ys)" "in_order xs (drop (length x) (y # ys))"
      | (later) "in_order (x # xs) ys" by (auto split: if_splits)
    then show "\<exists>p s. y # ys = p @ x @ s \<and> in_order xs s"
    proof cases
      case here
      then obtain s where "y # ys = x @ s" by (auto simp: prefix_def)
      with here(2) have "y # ys = [] @ x @ s \<and> in_order xs s" by simp
      then show ?thesis by blast
    next
      case later
      with Cons.IH obtain p s where "ys = p @ x @ s" "in_order xs s" by blast
      then have "y # ys = (y # p) @ x @ s \<and> in_order xs s" by simp
      then show ?thesis by blast
    qed
  next
    assume "\<exists>p s. y # ys = p @ x @ s \<and> in_order xs s"
    then obtain p s where ps: "y # ys = p @ x @ s" "in_order xs s" by blast
    show "in_order (x # xs) (y # ys)"
    proof (cases p)
      case Nil
      with ps have "prefix x (y # ys)" "drop (length x) (y # ys) = s" by auto
      with ps(2) show ?thesis by simp
    next
      case (Cons q p')
      with ps have "ys = p' @ x @ s" by simp
      with ps(2) Cons.IH have "in_order (x # xs) ys" by blast
      then show ?thesis by simp
    qed
  qed
qed

text \<open>For four strings, \<open>in_order\<close> is the decomposition one expects.\<close>

lemma in_order_four:
  "in_order [a, b, c, d] ys \<longleftrightarrow>
     (\<exists>p0 p1 p2 p3 p4. ys = p0 @ a @ p1 @ b @ p2 @ c @ p3 @ d @ p4)"
  apply (simp only: in_order_Cons in_order.simps(1))
  apply (rule iffI)
   apply (elim exE conjE)
   apply (simp only: append_assoc)
   apply blast
  apply (elim exE)
  apply blast
  done

lemma myvm_script_order:
  "in_order [''pw'', ''bob'', ''dir'', ''myvm'']
     (enter_vm_script ''myvm'' ''bob'' ''pw'' ''dir'')"
  by (simp add: enter_vm_script_def)

lemma myvm_script_not_claimed_order:
  "\<not> in_order [''myvm'', ''bob'', ''pw'', ''dir'']
       (enter_vm_script ''myvm'' ''bob'' ''pw'' ''dir'')"
  by (simp add: enter_vm_script_def)

subsection \<open>Projections of a trace\<close>

lemma spawned_append: "spawned (xs @ ys) = spawned xs @ spawned ys"
  by (induction xs rule: spawned.induct) simp_all

lemma spawned_close_slave: "spawned (close_slave pty) = []"
  by (simp add: close_slave_def split: option.split)

lemma spawned_close_master: "spawned (close_master pty) = []"
  by (simp add: close_master_def split: option.split)

lemma scripts_append: "scripts (xs @ ys) = scripts xs @ scripts ys"
  by (induction xs rule: scripts.induct) (simp_all split: popen_cmd.split)

lemma scripts_close_slave: "scripts (close_slave pty) = []"
  by (simp add: close_slave_def split: option.split)

lemma scripts_close_master: "scripts (close_master pty) = []"
  by (simp add: close_master_def split: option.split)

subsection \<open>The tail of \<^verbatim>\<open>exec_command\<close>\<close>

lemma spawned_spawn_and_wait:
  "spawned (fst (spawn_and_wait self os tr pty executable c in_data)) =
     spawned tr @
     [\<lparr>p_cmd = Shell c, p_shell = True, p_executable = Some executable,
       p_cwd = cwd self, p_stdin = stdin_of pty\<rparr>]"
  by (simp add: spawn_and_wait_def Let_def spawned_append spawned_close_slave
      spawned_close_master split: option.split child.split)

lemma scripts_spawn_and_wait:
  "scripts (fst (spawn_and_wait self os tr pty executable c in_data)) = scripts tr @ [c]"
  by (simp add: spawn_and_wait_def Let_def scripts_append scripts_close_slave
      scripts_close_master split: option.split child.split)

lemma fst_spawn_and_wait:
  "fst (spawn_and_wait self os tr pty executable c in_data) =
     (case popen_error os
             \<lparr>p_cmd = Shell c, p_shell = True, p_executable = Some executable,
              p_cwd = cwd self, p_stdin = stdin_of pty\<rparr> of
        Some m \<Rightarrow>
          tr @ [Popen \<lparr>p_cmd = Shell c, p_shell = True, p_executable = Some executable,
                       p_cwd = cwd self, p_stdin = stdin_of pty\<rparr>]
      | None \<Rightarrow>
          (case communicate os
                  \<lparr>p_cmd = Shell c, p_shell = True, p_executable = Some executable,
                   p_cwd = cwd self, p_stdin = stdin_of pty\<rparr> in_data of
             Hangs \<Rightarrow>
               tr @ [Popen \<lparr>p_cmd = Shell c, p_shell = True,
                            p_executable = Some executable,
                            p_cwd = cwd self, p_stdin = stdin_of pty\<rparr>] @
               close_slave pty @ [Communicate in_data]
           | Exits rc out err \<Rightarrow>
               tr @ [Popen \<lparr>p_cmd = Shell c, p_shell = True,
                            p_executable = Some executable,
                            p_cwd = cwd self, p_stdin = stdin_of pty\<rparr>] @
               close_slave pty @ [Communicate in_data] @ close_master pty))"
  by (simp add: spawn_and_wait_def Let_def split: option.split child.split)

lemma snd_spawn_and_wait:
  "snd (spawn_and_wait self os tr pty executable c in_data) =
     (case popen_error os
             \<lparr>p_cmd = Shell c, p_shell = True, p_executable = Some executable,
              p_cwd = cwd self, p_stdin = stdin_of pty\<rparr> of
        Some m \<Rightarrow> Raised (OSError m)
      | None \<Rightarrow>
          (case communicate os
                  \<lparr>p_cmd = Shell c, p_shell = True, p_executable = Some executable,
                   p_cwd = cwd self, p_stdin = stdin_of pty\<rparr> in_data of
             Hangs \<Rightarrow> Blocked
           | Exits rc out err \<Rightarrow> Returned (rc, out, err)))"
  by (simp add: spawn_and_wait_def Let_def split: option.split child.split)

text \<open>Once the shell is found, \<^verbatim>\<open>exec_command\<close> always reaches \<^verbatim>\<open>Popen\<close>.\<close>

lemma exec_command_found:
  assumes "path_exists os (py_or (which os ''powershell.exe'') ''powershell.exe'')"
  shows "exec_command self os cmd in_data sudoable =
           spawn_and_wait self os
             (if wants_pty self sudoable then [OpenPty] else [])
             (if wants_pty self sudoable
              then (case openpty os of Inr ms \<Rightarrow> Some ms | Inl e \<Rightarrow> None) else None)
             (py_or (which os ''powershell.exe'') ''powershell.exe'')
             (exec_script self cmd) in_data"
  using assms
  by (simp add: exec_command_def Let_def exec_script_def enter_vm_format to_bytes_def
      to_text_def)

lemma scripts_of_vm_call:
  assumes "truthy (vm_name self)"
    and "path_exists os (py_or (which os ''powershell.exe'') ''powershell.exe'')"
  shows "scripts (fst (exec_command self os cmd in_data sudoable)) =
           [enter_vm_script (py_str (vm_name self)) (py_str (remote_user self))
              (py_str (password self)) (cmd_bytes cmd)]"
  using assms
  by (simp add: exec_command_def Let_def enter_vm_format scripts_spawn_and_wait
      to_bytes_def to_text_def)

subsection \<open>The unused option\<close>

lemma spawn_and_wait_timeout:
  "spawn_and_wait (self\<lparr>operation_timeout := t\<rparr>) os tr pty executable c in_data =
     spawn_and_wait self os tr pty executable c in_data"
  by (simp add: spawn_and_wait_def)

lemma wants_pty_timeout:
  "wants_pty (self\<lparr>operation_timeout := t\<rparr>) sudoable = wants_pty self sudoable"
  by (simp add: wants_pty_def)

lemma put_file_vm_timeout:
  "put_file_vm (self\<lparr>operation_timeout := t\<rparr>) os tr in_path out_path =
     put_file_vm self os tr in_path out_path"
  by (simp add: put_file_vm_def Let_def cong: option.case_cong)

lemma exec_command_timeout:
  "exec_command (self\<lparr>operation_timeout := t\<rparr>) os cmd in_data sudoable =
     exec_command self os cmd in_data sudoable"
  by (simp add: exec_command_def spawn_and_wait_timeout wants_pty_timeout Let_def
      cong: option.case_cong)

lemma put_file_timeout:
  "put_file (self\<lparr>operation_timeout := t\<rparr>) os in_path out_path =
     put_file self os in_path out_path"
  by (simp add: put_file_def put_file_vm_timeout Let_def
      split: option.split child.split)

section \<open>Running a command\<close>

text \<open>
  C1. On a connection without a virtual machine, \<^verbatim>\<open>exec_command\<close> calls
  \<^verbatim>\<open>Popen\<close> exactly once, and the command of that call is the caller's command,
  converted to bytes and not wrapped in the script that enters a virtual machine. The
  shell executable has to exist, as the operation requires before it starts anything.
\<close>

theorem exec_command_direct:
  assumes "\<not> truthy (vm_name self)"
    and "path_exists os (py_or (which os ''powershell.exe'') ''powershell.exe'')"
  shows "\<exists>a. spawned (fst (exec_command self os cmd in_data sudoable)) = [a] \<and>
             p_cmd a = Shell (cmd_bytes cmd) \<and>
             cmd_bytes cmd = (case cmd of CmdStr s \<Rightarrow> s | CmdBytes b \<Rightarrow> b)"
  using assms
  by (simp add: exec_command_def Let_def to_bytes_def spawned_spawn_and_wait
      cmd_bytes_def split: command.split)

theorem exec_command_direct_witness:
  "\<not> truthy (vm_name conn_local) \<and>
   path_exists os_wsl (py_or (which os_wsl ''powershell.exe'') ''powershell.exe'') \<and>
   (\<exists>a. spawned (fst (exec_command conn_local os_wsl (CmdStr ''echo hi'') None False)) =
          [a] \<and>
        p_cmd a = Shell ''echo hi'') \<and>
   snd (exec_command conn_local os_wsl (CmdStr ''echo hi'') None False) =
     Returned (0, ''hi\<newline>'', [])"
proof -
  have v: "\<not> truthy (vm_name conn_local)" by (simp add: conn_local_def truthy_def)
  have e: "path_exists os_wsl (py_or (which os_wsl ''powershell.exe'') ''powershell.exe'')"
    by (simp add: os_wsl_def path_exists_def py_or_def powershell_path_def)
  have r: "snd (exec_command conn_local os_wsl (CmdStr ''echo hi'') None False) =
             Returned (0, ''hi\<newline>'', [])"
    by (simp add: op_defs example_defs)
  from exec_command_direct [OF v e, of "CmdStr ''echo hi''" None False] v e r
  show ?thesis by (simp add: cmd_bytes_def to_bytes_def)
qed

text \<open>
  C2. On a connection with the virtual machine \<open>V\<close> and the remote user \<open>U\<close>,
  \<^verbatim>\<open>exec_command\<close> calls \<^verbatim>\<open>Popen\<close> once, with the script composed from the
  template \<^verbatim>\<open>ENTER_VM\<close>, and \<open>V\<close>, \<open>U\<close> and the text of the caller's command each occur
  in that script as they are. The shell executable has to exist.
\<close>

theorem exec_command_vm:
  assumes "vm_name self = Some V" and "V \<noteq> []" and "remote_user self = Some U"
    and "path_exists os (py_or (which os ''powershell.exe'') ''powershell.exe'')"
  shows "\<exists>script a.
           format ENTER_VM [V, U, py_str (password self), to_text (cmd_bytes cmd)] =
             Some script \<and>
           spawned (fst (exec_command self os cmd in_data sudoable)) = [a] \<and>
           p_cmd a = Shell (to_bytes script) \<and>
           sublist V script \<and> sublist U script \<and> sublist (cmd_bytes cmd) script"
proof -
  let ?s = "enter_vm_script V U (py_str (password self)) (cmd_bytes cmd)"
  have f: "format ENTER_VM [V, U, py_str (password self), to_text (cmd_bytes cmd)] = Some ?s"
    by (simp only: enter_vm_format to_text_def)
  have sp: "\<exists>a. spawned (fst (exec_command self os cmd in_data sudoable)) = [a] \<and>
                p_cmd a = Shell (to_bytes ?s)"
    using assms
    by (simp add: exec_command_def Let_def truthy_def py_str_def f [unfolded py_str_def]
        spawned_spawn_and_wait to_bytes_def)
  from f sp enter_vm_script_contains(1,2,4) show ?thesis by blast
qed

theorem exec_command_vm_witness:
  "vm_name conn_myvm = Some ''myvm'' \<and> ''myvm'' \<noteq> [] \<and>
   remote_user conn_myvm = Some ''bob'' \<and>
   path_exists os_wsl (py_or (which os_wsl ''powershell.exe'') ''powershell.exe'') \<and>
   (\<exists>script a.
      format ENTER_VM [''myvm'', ''bob'', ''pw'', ''dir''] = Some script \<and>
      spawned (fst (exec_command conn_myvm os_wsl (CmdStr ''dir'') None True)) = [a] \<and>
      p_cmd a = Shell script \<and>
      sublist ''myvm'' script \<and> sublist ''bob'' script \<and> sublist ''dir'' script)"
proof -
  have v: "vm_name conn_myvm = Some ''myvm''" by (simp add: conn_myvm_def)
  have n: "''myvm'' \<noteq> []" by simp
  have u: "remote_user conn_myvm = Some ''bob''" by (simp add: conn_myvm_def conn_local_def)
  have p: "py_str (password conn_myvm) = ''pw''" by (simp add: conn_myvm_def py_str_def)
  have e: "path_exists os_wsl (py_or (which os_wsl ''powershell.exe'') ''powershell.exe'')"
    by (simp add: os_wsl_def path_exists_def py_or_def powershell_path_def)
  from exec_command_vm [OF v n u e, of "CmdStr ''dir''" None True] v u e
  show ?thesis unfolding p by (simp add: cmd_bytes_def to_bytes_def to_text_def)
qed

text \<open>
  C3. With the virtual machine myvm, the user bob, the password pw and the command dir,
  the script that \<^verbatim>\<open>exec_command\<close> composes does not contain the four strings in the
  order myvm, bob, pw, dir: the template names the password first and the virtual
  machine last.
\<close>

theorem claimed_order_counterexample:
  "map (in_order [''myvm'', ''bob'', ''pw'', ''dir''])
     (scripts (fst (exec_command conn_myvm os_wsl (CmdStr ''dir'') None True))) = [False]"
proof -
  have t: "truthy (vm_name conn_myvm)" by (simp add: conn_myvm_def truthy_def)
  have e: "path_exists os_wsl (py_or (which os_wsl ''powershell.exe'') ''powershell.exe'')"
    by (simp add: os_wsl_def path_exists_def py_or_def powershell_path_def)
  have "scripts (fst (exec_command conn_myvm os_wsl (CmdStr ''dir'') None True)) =
          [enter_vm_script ''myvm'' ''bob'' ''pw'' ''dir'']"
    unfolding scripts_of_vm_call [OF t e]
    by (simp add: conn_myvm_def conn_local_def py_str_def cmd_bytes_def to_bytes_def)
  with myvm_script_not_claimed_order show ?thesis by simp
qed

text \<open>
  C3, as the code has it. With the virtual machine myvm, the user bob, the password pw
  and the command dir, \<^verbatim>\<open>exec_command\<close> hands one script to the shell, and it contains
  the four strings in the order pw, bob, dir, myvm.
\<close>

theorem enter_vm_script_order:
  assumes "vm_name self = Some ''myvm''" and "remote_user self = Some ''bob''"
    and "password self = Some ''pw''"
    and "path_exists os (py_or (which os ''powershell.exe'') ''powershell.exe'')"
  shows "map (in_order [''pw'', ''bob'', ''dir'', ''myvm''])
           (scripts (fst (exec_command self os (CmdStr ''dir'') in_data sudoable))) = [True]"
proof -
  have "truthy (vm_name self)" using assms(1) by (simp add: truthy_def)
  from scripts_of_vm_call [OF this assms(4)] show ?thesis
    using assms(1-3) myvm_script_order
    by (simp add: py_str_def cmd_bytes_def to_bytes_def)
qed

theorem enter_vm_script_order_witness:
  "vm_name conn_myvm = Some ''myvm'' \<and> remote_user conn_myvm = Some ''bob'' \<and>
   password conn_myvm = Some ''pw'' \<and>
   path_exists os_wsl (py_or (which os_wsl ''powershell.exe'') ''powershell.exe'') \<and>
   map (in_order [''pw'', ''bob'', ''dir'', ''myvm''])
     (scripts (fst (exec_command conn_myvm os_wsl (CmdStr ''dir'') None True))) = [True]"
proof -
  have v: "vm_name conn_myvm = Some ''myvm''" by (simp add: conn_myvm_def)
  have u: "remote_user conn_myvm = Some ''bob''" by (simp add: conn_myvm_def conn_local_def)
  have p: "password conn_myvm = Some ''pw''" by (simp add: conn_myvm_def)
  have e: "path_exists os_wsl (py_or (which os_wsl ''powershell.exe'') ''powershell.exe'')"
    by (simp add: os_wsl_def path_exists_def py_or_def powershell_path_def)
  from enter_vm_script_order [OF v u p e, of None True] v u p e show ?thesis by blast
qed

text \<open>
  C6. When \<^verbatim>\<open>exec_command\<close> tries to open a pty and \<^verbatim>\<open>pty.openpty\<close> fails, that error
  is not the outcome of the call: one process is started with a pipe as its standard
  input, and the outcome is decided by that process alone. A child that exits gives the
  triple of its status, output and error output; only a failure of \<^verbatim>\<open>Popen\<close> itself is
  raised.
\<close>

theorem pty_failure_not_raised:
  assumes "wants_pty self sudoable" and "openpty os = Inl e"
    and "path_exists os (py_or (which os ''powershell.exe'') ''powershell.exe'')"
  shows "\<exists>a. spawned (fst (exec_command self os cmd in_data sudoable)) = [a] \<and>
             p_stdin a = PIPE \<and>
             snd (exec_command self os cmd in_data sudoable) =
               (case popen_error os a of
                  Some m \<Rightarrow> Raised (OSError m)
                | None \<Rightarrow>
                    (case communicate os a in_data of
                       Hangs \<Rightarrow> Blocked
                     | Exits rc out err \<Rightarrow> Returned (rc, out, err)))"
proof -
  let ?a = "popen_shell self os (exec_script self cmd) PIPE"
  have "spawned (fst (exec_command self os cmd in_data sudoable)) = [?a]"
    using assms
    by (simp add: exec_command_found spawned_spawn_and_wait popen_shell_def stdin_of_def)
  moreover have "p_stdin ?a = PIPE" by (simp add: popen_shell_def)
  moreover have "snd (exec_command self os cmd in_data sudoable) =
                   (case popen_error os ?a of
                      Some m \<Rightarrow> Raised (OSError m)
                    | None \<Rightarrow>
                        (case communicate os ?a in_data of
                           Hangs \<Rightarrow> Blocked
                         | Exits rc out err \<Rightarrow> Returned (rc, out, err)))"
    using assms
    by (simp add: exec_command_found snd_spawn_and_wait popen_shell_def stdin_of_def
        split: option.split child.split)
  ultimately show ?thesis by blast
qed

theorem pty_failure_not_raised_witness:
  "wants_pty conn_local True \<and> openpty os_no_pty = Inl ''out of pty devices'' \<and>
   path_exists os_no_pty (py_or (which os_no_pty ''powershell.exe'') ''powershell.exe'') \<and>
   (\<exists>a. spawned (fst (exec_command conn_local os_no_pty (CmdStr ''echo hi'') None True)) =
          [a] \<and>
        p_stdin a = PIPE \<and>
        snd (exec_command conn_local os_no_pty (CmdStr ''echo hi'') None True) =
          (case popen_error os_no_pty a of
             Some m \<Rightarrow> Raised (OSError m)
           | None \<Rightarrow>
               (case communicate os_no_pty a None of
                  Hangs \<Rightarrow> Blocked
                | Exits rc out err \<Rightarrow> Returned (rc, out, err)))) \<and>
   exec_command conn_local os_no_pty (CmdStr ''echo hi'') None True =
     ([OpenPty,
       Popen \<lparr>p_cmd = Shell ''echo hi'', p_shell = True,
              p_executable = Some powershell_path, p_cwd = None, p_stdin = PIPE\<rparr>,
       Communicate None],
      Returned (0, ''hi\<newline>'', []))"
proof -
  have w: "wants_pty conn_local True" by (simp add: wants_pty_def conn_local_def)
  have o: "openpty os_no_pty = Inl ''out of pty devices''" by (simp add: os_no_pty_def)
  have e: "path_exists os_no_pty
             (py_or (which os_no_pty ''powershell.exe'') ''powershell.exe'')"
    by (simp add: os_no_pty_def os_wsl_def path_exists_def py_or_def powershell_path_def)
  note inst = pty_failure_not_raised [OF w o e, of "CmdStr ''echo hi''" None]
  have "exec_command conn_local os_no_pty (CmdStr ''echo hi'') None True =
          ([OpenPty,
            Popen \<lparr>p_cmd = Shell ''echo hi'', p_shell = True,
                   p_executable = Some powershell_path, p_cwd = None, p_stdin = PIPE\<rparr>,
            Communicate None],
           Returned (0, ''hi\<newline>'', []))"
    by (simp add: op_defs example_defs)
  with w o e inst show ?thesis by blast
qed

text \<open>
  A pty whose master is descriptor 0: \<^verbatim>\<open>if master:\<close> is false for it, so the master
  stays open after the child has exited, while \<^verbatim>\<open>if master is not None:\<close> has closed
  the slave.
\<close>

lemma master_zero_stays_open:
  "closed (fst (exec_command conn_local (os_wsl\<lparr>openpty := Inr (0, 4)\<rparr>)
                  (CmdStr ''whoami'') None True)) = [4]"
  by (simp add: op_defs example_defs)

text \<open>
  C7. The two halves of the pty are not released on every path. On a host where the pty
  is the pair of descriptors 3 and 4 and \<^verbatim>\<open>Popen\<close> fails, \<^verbatim>\<open>exec_command\<close> opens the
  pty, tries to start the shell and raises; it closes nothing.
\<close>

theorem pty_leak_counterexample:
  "wants_pty conn_local True \<and> openpty os_no_spawn = Inr (3, 4) \<and>
   exec_command conn_local os_no_spawn (CmdStr ''whoami'') None True =
     ([OpenPty,
       Popen \<lparr>p_cmd = Shell ''whoami'', p_shell = True,
              p_executable = Some powershell_path, p_cwd = None, p_stdin = Fd 4\<rparr>],
      Raised (OSError ''Exec format error'')) \<and>
   closed (fst (exec_command conn_local os_no_spawn (CmdStr ''whoami'') None True)) = []"
  by (simp add: op_defs example_defs)

text \<open>
  C7, as the code has it. When \<^verbatim>\<open>exec_command\<close> has opened a pty with master \<open>m\<close>,
  not descriptor 0, and slave \<open>s\<close>, the child reads from \<open>s\<close>, and the trace is one of
  three: if \<^verbatim>\<open>Popen\<close> fails, nothing is closed; if the child is started, \<open>s\<close> is closed
  right after \<^verbatim>\<open>Popen\<close> and before the wait; if the child exits, \<open>m\<close> is closed
  after the wait, and if it never exits \<open>m\<close> stays open.
\<close>

theorem pty_release:
  assumes "wants_pty self sudoable" and "openpty os = Inr (m, s)" and "m \<noteq> 0"
    and "path_exists os (py_or (which os ''powershell.exe'') ''powershell.exe'')"
  shows "\<exists>a. p_stdin a = Fd s \<and>
             fst (exec_command self os cmd in_data sudoable) =
               (case popen_error os a of
                  Some e \<Rightarrow> [OpenPty, Popen a]
                | None \<Rightarrow>
                    (case communicate os a in_data of
                       Hangs \<Rightarrow> [OpenPty, Popen a, Close s, Communicate in_data]
                     | Exits rc out err \<Rightarrow>
                         [OpenPty, Popen a, Close s, Communicate in_data, Close m]))"
proof -
  let ?a = "popen_shell self os (exec_script self cmd) (Fd s)"
  have "p_stdin ?a = Fd s" by (simp add: popen_shell_def)
  moreover have "fst (exec_command self os cmd in_data sudoable) =
               (case popen_error os ?a of
                  Some e \<Rightarrow> [OpenPty, Popen ?a]
                | None \<Rightarrow>
                    (case communicate os ?a in_data of
                       Hangs \<Rightarrow> [OpenPty, Popen ?a, Close s, Communicate in_data]
                     | Exits rc out err \<Rightarrow>
                         [OpenPty, Popen ?a, Close s, Communicate in_data, Close m]))"
    using assms
    by (simp add: exec_command_found fst_spawn_and_wait popen_shell_def stdin_of_def
        close_slave_def close_master_def split: option.split child.split)
  ultimately show ?thesis by blast
qed

theorem pty_release_witness:
  "wants_pty conn_local True \<and> openpty os_wsl = Inr (3, 4) \<and> (3::nat) \<noteq> 0 \<and>
   path_exists os_wsl (py_or (which os_wsl ''powershell.exe'') ''powershell.exe'') \<and>
   (\<exists>a. p_stdin a = Fd 4 \<and>
        fst (exec_command conn_local os_wsl (CmdStr ''whoami'') None True) =
          (case popen_error os_wsl a of
             Some e \<Rightarrow> [OpenPty, Popen a]
           | None \<Rightarrow>
               (case communicate os_wsl a None of
                  Hangs \<Rightarrow> [OpenPty, Popen a, Close 4, Communicate None]
                | Exits rc out err \<Rightarrow>
                    [OpenPty, Popen a, Close 4, Communicate None, Close 3]))) \<and>
   fst (exec_command conn_local os_wsl (CmdStr ''whoami'') None True) =
     [OpenPty,
      Popen \<lparr>p_cmd = Shell ''whoami'', p_shell = True,
             p_executable = Some powershell_path, p_cwd = None, p_stdin = Fd 4\<rparr>,
      Close 4, Communicate None, Close 3]"
proof -
  have w: "wants_pty conn_local True" by (simp add: wants_pty_def conn_local_def)
  have o: "openpty os_wsl = Inr (3, 4)" by (simp add: os_wsl_def)
  have n: "(3::nat) \<noteq> 0" by simp
  have e: "path_exists os_wsl (py_or (which os_wsl ''powershell.exe'') ''powershell.exe'')"
    by (simp add: os_wsl_def path_exists_def py_or_def powershell_path_def)
  note inst = pty_release [OF w o n e, of "CmdStr ''whoami''" None]
  have "fst (exec_command conn_local os_wsl (CmdStr ''whoami'') None True) =
          [OpenPty,
           Popen \<lparr>p_cmd = Shell ''whoami'', p_shell = True,
                  p_executable = Some powershell_path, p_cwd = None, p_stdin = Fd 4\<rparr>,
           Close 4, Communicate None, Close 3]"
    by (simp add: op_defs example_defs)
  with w o n e inst show ?thesis by blast
qed

section \<open>Copying a file\<close>

text \<open>
  C4. When the source path does not exist, \<^verbatim>\<open>put_file\<close> raises
  \<^verbatim>\<open>AnsibleFileNotFound\<close> and its trace is empty: neither \<^verbatim>\<open>wslpath\<close> nor a copy
  script has been started.
\<close>

theorem put_file_missing_source:
  assumes "\<not> path_exists os in_path"
  shows "fst (put_file self os in_path out_path) = [] \<and>
         snd (put_file self os in_path out_path) =
           Raised (AnsibleFileNotFound (''file or module does not exist: '' @ in_path))"
  using assms by (simp add: put_file_def to_bytes_def to_native_def)

theorem put_file_missing_source_witness:
  "\<not> path_exists os_wsl ''/tmp/missing'' \<and>
   fst (put_file conn_local os_wsl ''/tmp/missing'' ''/tmp/b'') = [] \<and>
   snd (put_file conn_local os_wsl ''/tmp/missing'' ''/tmp/b'') =
     Raised (AnsibleFileNotFound ''file or module does not exist: /tmp/missing'')"
proof -
  have m: "\<not> path_exists os_wsl ''/tmp/missing''"
    by (simp add: path_exists_def os_wsl_def powershell_path_def)
  from put_file_missing_source [OF m, of conn_local "''/tmp/b''"] m show ?thesis by simp
qed

text \<open>
  C5. On the WSL host, where \<^verbatim>\<open>/tmp/a\<close> is a file, \<^verbatim>\<open>put_file\<close> from \<^verbatim>\<open>/tmp/a\<close> to
  \<^verbatim>\<open>/tmp/a\<close> without a virtual machine does not report that the two are the same file.
  The copy reads from what \<^verbatim>\<open>wslpath\<close> printed, the UNC path with its newline, which
  names no file, and the error raised is the one for a failed transfer.
\<close>

theorem put_file_same_file_evaluation:
  "inode os_wsl ''/tmp/a'' = Some 2 \<and>
   put_file conn_local os_wsl ''/tmp/a'' ''/tmp/a'' =
     ([Popen (wslpath_args ''/tmp/a''), Communicate None,
       CopyFile (unc_tmp_a @ ''\<newline>'') ''/tmp/a''],
      Raised (AnsibleError
        (''failed to transfer file to /tmp/a: [Errno 2] No such file or directory: '' @
         unc_tmp_a @ ''\<newline>'')))"
  by (simp add: op_defs example_defs)

text \<open>What \<^verbatim>\<open>rstrip\<close> removes is a run of newlines, and it leaves none at the end.\<close>

lemma rstrip_nl_decomp: "\<exists>k. s = rstrip_nl s @ replicate k (CHR 0x0A)"
proof -
  let ?P = "\<lambda>c. c = CHR 0x0A"
  let ?t = "takeWhile ?P (rev s)"
  have "rev (?t @ dropWhile ?P (rev s)) = s"
    by (simp only: takeWhile_dropWhile_id rev_rev_ident)
  then have s: "s = rstrip_nl s @ rev ?t"
    by (simp only: rev_append rstrip_nl_def)
  have "\<forall>c \<in> set ?t. c = CHR 0x0A" by (auto dest: set_takeWhileD)
  then have "replicate (length ?t) (CHR 0x0A) = ?t" by (rule replicate_length_same)
  then have "rev ?t = replicate (length ?t) (CHR 0x0A)" by (metis rev_replicate)
  with s show ?thesis by metis
qed

lemma rstrip_nl_no_trailing: "\<not> suffix ''\<newline>'' (rstrip_nl s)"
proof
  assume "suffix ''\<newline>'' (rstrip_nl s)"
  then obtain p where "rstrip_nl s = p @ ''\<newline>''" by (auto simp: suffix_def)
  then have "rev (rstrip_nl s) = CHR 0x0A # rev p" by simp
  then have d: "dropWhile (\<lambda>c. c = CHR 0x0A) (rev s) = CHR 0x0A # rev p"
    by (simp add: rstrip_nl_def)
  then have "dropWhile (\<lambda>c. c = CHR 0x0A) (rev s) \<noteq> []" by simp
  from hd_dropWhile [OF this] d show False by simp
qed

text \<open>The copy script names its source and destination in the \<^verbatim>\<open>Copy-Item\<close> line.\<close>

lemma copy_file_script_contains:
  "sublist (''Copy-Item -ToSession $s -Path '' @ [CHR 0x27] @ src @ [CHR 0x27] @
            '' -Destination '' @ [CHR 0x27] @ dst @ [CHR 0x27])
     (copy_file_script v u p src dst)"
  "sublist src (copy_file_script v u p src dst)"
proof -
  let ?pre = "''\<newline>$secpass = ConvertTo-SecureString -AsPlainText -Force -String '' @ [CHR 0x27] @ p @
     [CHR 0x27] @ ''\<newline>$cred = [PSCredential]::new('' @ [CHR 0x27] @ u @
     [CHR 0x27] @ '', $secpass)\<newline>$s = New-PSSession -VMName '' @ [CHR 0x27] @ v @
     [CHR 0x27] @ '' -Credential $cred\<newline>''"
  let ?mid = "''Copy-Item -ToSession $s -Path '' @ [CHR 0x27] @ src @ [CHR 0x27] @
            '' -Destination '' @ [CHR 0x27] @ dst @ [CHR 0x27]"
  have "copy_file_script v u p src dst =
          ?pre @ ?mid @ ''\<newline>$s | Remove-PSSession\<newline>''"
    by (simp add: copy_file_script_def)
  then show "sublist ?mid (copy_file_script v u p src dst)"
    by (simp only: sublist_appendI)
  show "sublist src (copy_file_script v u p src dst)"
    unfolding copy_file_script_def
    by (intro sublist_append_rightI sublist_skip)
qed

text \<open>
  C10. When the source exists and \<^verbatim>\<open>wslpath\<close> has printed \<open>out\<close>, the rest of
  \<^verbatim>\<open>put_file\<close> works with \<open>out\<close> in place of the caller's source path. With a virtual
  machine, the one script handed to the shell is \<^verbatim>\<open>COPY_FILE\<close> formatted with \<open>out\<close>
  stripped of its trailing newlines, and nothing is copied locally: the script contains
  the line \<^verbatim>\<open>Copy-Item -ToSession $s -Path '...' -Destination '...'\<close> with the stripped
  output between the first pair of quotes and the destination between the second, and
  the stripped output is \<open>out\<close> without the newlines at its end. Without a virtual
  machine, no script is run and the local copy reads from \<open>out\<close> as it is, newline
  included.
\<close>

theorem put_file_uses_translated_path:
  assumes "path_exists os in_path"
    and "popen_error os (wslpath_args in_path) = None"
    and "communicate os (wslpath_args in_path) None = Exits rc out err"
  shows "(truthy (vm_name self) \<longrightarrow>
            (\<exists>script.
               format COPY_FILE
                 [py_str (vm_name self), py_str (remote_user self),
                  py_str (password self), rstrip_nl out, out_path] = Some script \<and>
               scripts (fst (put_file self os in_path out_path)) = [script] \<and>
               copies (fst (put_file self os in_path out_path)) = [] \<and>
               sublist (''Copy-Item -ToSession $s -Path '' @ [CHR 0x27] @ rstrip_nl out @
                        [CHR 0x27] @ '' -Destination '' @ [CHR 0x27] @ out_path @
                        [CHR 0x27]) script \<and>
               sublist (rstrip_nl out) script) \<and>
            \<not> suffix ''\<newline>'' (rstrip_nl out) \<and>
            (\<exists>k. out = rstrip_nl out @ replicate k (CHR 0x0A))) \<and>
         (\<not> truthy (vm_name self) \<longrightarrow>
            copies (fst (put_file self os in_path out_path)) = [(out, out_path)] \<and>
            scripts (fst (put_file self os in_path out_path)) = [])"
proof (intro conjI impI)
  assume vm: "truthy (vm_name self)"
  let ?s = "copy_file_script (py_str (vm_name self)) (py_str (remote_user self))
              (py_str (password self)) (rstrip_nl out) out_path"
  have f: "format COPY_FILE
             [py_str (vm_name self), py_str (remote_user self),
              py_str (password self), rstrip_nl out, out_path] = Some ?s"
    by (rule copy_file_format)
  have "put_file self os in_path out_path =
          put_file_vm self os [Popen (wslpath_args in_path), Communicate None] out out_path"
    using assms vm by (simp add: put_file_def to_bytes_def)
  moreover have
    "scripts (fst (put_file_vm self os [Popen (wslpath_args in_path), Communicate None]
                     out out_path)) = [?s]"
    "copies (fst (put_file_vm self os [Popen (wslpath_args in_path), Communicate None]
                    out out_path)) = []"
    by (simp_all add: put_file_vm_def f [unfolded to_text_def] to_text_def to_bytes_def
        Let_def wslpath_args_def split: option.split child.split)
  ultimately have t:
    "scripts (fst (put_file self os in_path out_path)) = [?s]"
    "copies (fst (put_file self os in_path out_path)) = []"
    by simp_all
  have c: "sublist (''Copy-Item -ToSession $s -Path '' @ [CHR 0x27] @ rstrip_nl out @
                    [CHR 0x27] @ '' -Destination '' @ [CHR 0x27] @ out_path @
                    [CHR 0x27]) ?s"
    "sublist (rstrip_nl out) ?s"
    by (rule copy_file_script_contains)+
  from f t c
  show "\<exists>script.
      format COPY_FILE
        [py_str (vm_name self), py_str (remote_user self),
         py_str (password self), rstrip_nl out, out_path] = Some script \<and>
      scripts (fst (put_file self os in_path out_path)) = [script] \<and>
      copies (fst (put_file self os in_path out_path)) = [] \<and>
      sublist (''Copy-Item -ToSession $s -Path '' @ [CHR 0x27] @ rstrip_nl out @
               [CHR 0x27] @ '' -Destination '' @ [CHR 0x27] @ out_path @
               [CHR 0x27]) script \<and>
      sublist (rstrip_nl out) script"
    by blast
next
  show "\<not> suffix ''\<newline>'' (rstrip_nl out)" by (rule rstrip_nl_no_trailing)
next
  show "\<exists>k. out = rstrip_nl out @ replicate k (CHR 0x0A)" by (rule rstrip_nl_decomp)
next
  assume vm: "\<not> truthy (vm_name self)"
  have p: "put_file self os in_path out_path =
          put_file_local os [Popen (wslpath_args in_path), Communicate None] out out_path"
    using assms vm by (simp add: put_file_def to_bytes_def)
  show "copies (fst (put_file self os in_path out_path)) = [(out, out_path)]"
    unfolding p
    by (simp add: put_file_local_def wslpath_args_def split: copy_result.split)
  show "scripts (fst (put_file self os in_path out_path)) = []"
    unfolding p
    by (simp add: put_file_local_def wslpath_args_def split: copy_result.split)
qed

theorem put_file_uses_translated_path_witness:
  "path_exists os_wsl ''/tmp/a'' \<and>
   popen_error os_wsl (wslpath_args ''/tmp/a'') = None \<and>
   communicate os_wsl (wslpath_args ''/tmp/a'') None =
     Exits 0 (unc_tmp_a @ ''\<newline>'') [] \<and>
   truthy (vm_name conn_myvm) \<and>
   (\<exists>script.
      format COPY_FILE [''myvm'', ''bob'', ''pw'', unc_tmp_a, ''C:/Temp/a''] = Some script \<and>
      scripts (fst (put_file conn_myvm os_wsl ''/tmp/a'' ''C:/Temp/a'')) = [script] \<and>
      copies (fst (put_file conn_myvm os_wsl ''/tmp/a'' ''C:/Temp/a'')) = [] \<and>
      sublist (''Copy-Item -ToSession $s -Path '' @ [CHR 0x27] @ unc_tmp_a @
               [CHR 0x27] @ '' -Destination '' @ [CHR 0x27] @ ''C:/Temp/a'' @
               [CHR 0x27]) script \<and>
      sublist unc_tmp_a script) \<and>
   \<not> suffix ''\<newline>'' unc_tmp_a \<and>
   \<not> truthy (vm_name conn_local) \<and>
   copies (fst (put_file conn_local os_wsl ''/tmp/a'' ''/tmp/b'')) =
     [(unc_tmp_a @ ''\<newline>'', ''/tmp/b'')] \<and>
   scripts (fst (put_file conn_local os_wsl ''/tmp/a'' ''/tmp/b'')) = []"
proof -
  have x: "path_exists os_wsl ''/tmp/a''"
    by (simp add: path_exists_def os_wsl_def powershell_path_def)
  have p: "popen_error os_wsl (wslpath_args ''/tmp/a'') = None" by (simp add: os_wsl_def)
  have c: "communicate os_wsl (wslpath_args ''/tmp/a'') None =
             Exits 0 (unc_tmp_a @ ''\<newline>'') []"
    by (simp add: os_wsl_def wslpath_args_def)
  have v: "truthy (vm_name conn_myvm)" by (simp add: conn_myvm_def truthy_def)
  have l: "\<not> truthy (vm_name conn_local)" by (simp add: conn_local_def truthy_def)
  have a: "py_str (vm_name conn_myvm) = ''myvm''" "py_str (remote_user conn_myvm) = ''bob''"
    "py_str (password conn_myvm) = ''pw''"
    by (simp_all add: conn_myvm_def conn_local_def py_str_def)
  have r: "rstrip_nl (unc_tmp_a @ ''\<newline>'') = unc_tmp_a"
    by (simp add: rstrip_nl_def unc_tmp_a_def)
  note vm = put_file_uses_translated_path [OF x p c, of conn_myvm "''C:/Temp/a''",
      unfolded a r]
  note loc = put_file_uses_translated_path [OF x p c, of conn_local "''/tmp/b''"]
  from vm v have
    "\<exists>script.
      format COPY_FILE [''myvm'', ''bob'', ''pw'', unc_tmp_a, ''C:/Temp/a''] = Some script \<and>
      scripts (fst (put_file conn_myvm os_wsl ''/tmp/a'' ''C:/Temp/a'')) = [script] \<and>
      copies (fst (put_file conn_myvm os_wsl ''/tmp/a'' ''C:/Temp/a'')) = [] \<and>
      sublist (''Copy-Item -ToSession $s -Path '' @ [CHR 0x27] @ unc_tmp_a @
               [CHR 0x27] @ '' -Destination '' @ [CHR 0x27] @ ''C:/Temp/a'' @
               [CHR 0x27]) script \<and>
      sublist unc_tmp_a script"
    and "\<not> suffix ''\<newline>'' unc_tmp_a"
    by blast+
  moreover from loc l have
    "copies (fst (put_file conn_local os_wsl ''/tmp/a'' ''/tmp/b'')) =
       [(unc_tmp_a @ ''\<newline>'', ''/tmp/b'')]"
    "scripts (fst (put_file conn_local os_wsl ''/tmp/a'' ''/tmp/b'')) = []"
    by blast+
  ultimately show ?thesis using x p c v l by blast
qed

text \<open>
  C8. \<^verbatim>\<open>fetch_file\<close> with a source and a destination does what \<^verbatim>\<open>put_file\<close> does
  with the same two arguments in the same order: the same trace and the same outcome.
\<close>

theorem fetch_file_is_put_file:
  "fetch_file self os a b = put_file self os a b"
  by (simp add: fetch_file_def)

theorem fetch_file_is_put_file_witness:
  "fetch_file conn_local os_wsl ''/tmp/missing'' ''/tmp/b'' =
     ([], Raised (AnsibleFileNotFound ''file or module does not exist: /tmp/missing''))"
  unfolding fetch_file_is_put_file [of conn_local os_wsl "''/tmp/missing''" "''/tmp/b''"]
  by (simp add: op_defs example_defs)

section \<open>The option \<^verbatim>\<open>operation_timeout\<close>\<close>

text \<open>
  C9. Changing \<^verbatim>\<open>operation_timeout\<close> and nothing else changes neither the trace nor the
  outcome of \<^verbatim>\<open>exec_command\<close> and of \<^verbatim>\<open>put_file\<close>: the same processes are started,
  waited for in the same way, and the same result comes back. A child that never exits
  blocks the call whatever the value.
\<close>

theorem operation_timeout_unused:
  "exec_command (self\<lparr>operation_timeout := t\<rparr>) os cmd in_data sudoable =
     exec_command self os cmd in_data sudoable \<and>
   put_file (self\<lparr>operation_timeout := t\<rparr>) os in_path out_path =
     put_file self os in_path out_path"
  by (simp only: exec_command_timeout put_file_timeout)

theorem operation_timeout_unused_witness:
  "exec_command (conn_local\<lparr>operation_timeout := 1\<rparr>) os_hangs (CmdStr ''echo hi'') None
     False =
     ([Popen \<lparr>p_cmd = Shell ''echo hi'', p_shell = True,
              p_executable = Some powershell_path, p_cwd = None, p_stdin = PIPE\<rparr>,
       Communicate None],
      Blocked) \<and>
   put_file (conn_local\<lparr>operation_timeout := 1\<rparr>) os_hangs ''/tmp/a'' ''/tmp/b'' =
     ([Popen (wslpath_args ''/tmp/a''), Communicate None], Blocked)"
proof -
  note inst = operation_timeout_unused [where self = conn_local and t = 1
      and os = os_hangs and cmd = "CmdStr ''echo hi''" and in_data = None
      and sudoable = False and in_path = "''/tmp/a''" and out_path = "''/tmp/b''"]
  have "exec_command conn_local os_hangs (CmdStr ''echo hi'') None False =
          ([Popen \<lparr>p_cmd = Shell ''echo hi'', p_shell = True,
                   p_executable = Some powershell_path, p_cwd = None, p_stdin = PIPE\<rparr>,
            Communicate None],
           Blocked)"
    by (simp add: op_defs example_defs)
  moreover have "put_file conn_local os_hangs ''/tmp/a'' ''/tmp/b'' =
                   ([Popen (wslpath_args ''/tmp/a''), Communicate None], Blocked)"
    by (simp add: op_defs example_defs)
  ultimately show ?thesis using inst by simp
qed

end
